theory Spec2Isabelle
  imports Main "HOL-Library.Word"
begin

section \<open>JavaScript strings\<close>

text \<open>
  A JavaScript string is a sequence of UTF-16 code units. Room identifiers, socket
  identifiers, display names and chat texts are all such strings. \<open>js\<close> turns an ASCII
  literal into its code units.
\<close>

type_synonym jsstring = "16 word list"

definition js :: "string \<Rightarrow> jsstring" where
  "js s = map of_char s"

text \<open>
  \<open>String.prototype.trim\<close> removes the ECMAScript white space and line terminator code
  points from both ends: TAB, LF, VT, FF, CR, SP, NBSP, U+1680, U+2000 to U+200A, U+2028,
  U+2029, U+202F, U+205F, U+3000 and U+FEFF.
\<close>

definition isWhiteSpace :: "16 word \<Rightarrow> bool" where
  "isWhiteSpace c \<longleftrightarrow>
     c \<in> {0x9, 0xA, 0xB, 0xC, 0xD, 0x20, 0xA0, 0x1680, 0x2028, 0x2029, 0x202F, 0x205F,
          0x3000, 0xFEFF}
     \<or> (0x2000 \<le> c \<and> c \<le> 0x200A)"

definition trim :: "jsstring \<Rightarrow> jsstring" where
  "trim s = rev (dropWhile isWhiteSpace (rev (dropWhile isWhiteSpace s)))"

text \<open>
  A field of an event payload is either missing (\<open>undefined\<close> or \<open>null\<close>, here \<open>None\<close>) or
  a string. A missing field and the empty string are falsy, every other string is truthy.
\<close>

definition truthy :: "jsstring option \<Rightarrow> bool" where
  "truthy v = (case v of None \<Rightarrow> False | Some s \<Rightarrow> s \<noteq> [])"

text \<open>\<open>a || b\<close> on an optional string and a default string.\<close>

definition or_default :: "jsstring option \<Rightarrow> jsstring \<Rightarrow> jsstring" where
  "or_default v d = (case v of None \<Rightarrow> d | Some s \<Rightarrow> if s = [] then d else s)"

section \<open>The signaling server (backend/index.js)\<close>

subsection \<open>Events sent to clients\<close>

text \<open>
  Session descriptions and ICE candidates are opaque to the server and to the client
  logic; they are numbered. The timestamp of a chat message is \<open>Date.now()\<close>, a number of
  milliseconds.
\<close>

type_synonym sdp = nat
type_synonym candidate = nat

datatype event =
    ExistingParticipants "jsstring list"
  | UserJoined jsstring "jsstring option"
  | UserLeft jsstring
  | Offer jsstring sdp
  | Answer jsstring sdp
  | IceCandidate jsstring candidate
  | ChatMessage jsstring jsstring nat

text \<open>A delivery is an event handed to the connection with the given socket id.\<close>

type_synonym delivery = "jsstring \<times> event"

subsection \<open>The room registry of socket.io\<close>

text \<open>
  The in-memory adapter keeps two maps of JavaScript \<open>Set\<close>s: the members of every room
  and the rooms of every socket. A \<open>Set\<close> iterates in insertion order without duplicates,
  so each is a list here; an absent room is the empty list. \<open>socketData\<close> is
  \<open>socket.data\<close> (\<open>roomId\<close> and \<open>userName\<close>), written by \<open>join-room\<close>.
\<close>

record server =
  rooms :: "jsstring \<Rightarrow> jsstring list"
  sids :: "jsstring \<Rightarrow> jsstring list"
  socketData :: "jsstring \<Rightarrow> (jsstring \<times> jsstring option) option"

definition init_server :: server where
  "init_server = \<lparr>rooms = (\<lambda>_. []), sids = (\<lambda>_. []), socketData = (\<lambda>_. None)\<rparr>"

text \<open>\<open>Set.prototype.add\<close>.\<close>

definition set_add :: "'a \<Rightarrow> 'a list \<Rightarrow> 'a list" where
  "set_add x xs = (if x \<in> set xs then xs else xs @ [x])"

text \<open>\<open>socket.join(room)\<close>.\<close>

definition socket_join :: "server \<Rightarrow> jsstring \<Rightarrow> jsstring \<Rightarrow> server" where
  "socket_join srv s r =
     srv\<lparr>rooms := (rooms srv)(r := set_add s (rooms srv r)),
         sids := (sids srv)(s := set_add r (sids srv s))\<rparr>"

text \<open>On connection socket.io puts every socket into the room named by its own id.\<close>

definition connection :: "server \<Rightarrow> jsstring \<Rightarrow> server" where
  "connection srv s = socket_join srv s s"

text \<open>
  \<open>io.to(room).emit(ev)\<close> hands the event to every member of the room;
  \<open>socket.to(room).emit(ev)\<close> to every member except the socket itself;
  \<open>socket.emit(ev)\<close> to the socket alone.
\<close>

definition io_to :: "server \<Rightarrow> jsstring \<Rightarrow> event \<Rightarrow> delivery list" where
  "io_to srv r ev = map (\<lambda>x. (x, ev)) (rooms srv r)"

definition socket_to :: "server \<Rightarrow> jsstring \<Rightarrow> jsstring \<Rightarrow> event \<Rightarrow> delivery list" where
  "socket_to srv s r ev = map (\<lambda>x. (x, ev)) (filter (\<lambda>x. x \<noteq> s) (rooms srv r))"

subsection \<open>The event handlers\<close>

text \<open>
  Each handler takes the server state, the id of the socket the event came from and the
  destructured payload; it returns the new state (where it changes) and the deliveries
  in the order they are emitted.
\<close>

definition join_room ::
  "server \<Rightarrow> jsstring \<Rightarrow> jsstring option \<Rightarrow> jsstring option \<Rightarrow> server \<times> delivery list" where
  "join_room srv s roomId userName =
     (case roomId of
        None \<Rightarrow> (srv, [])
      | Some r \<Rightarrow>
          if r = [] then (srv, [])
          else
            let srv1 = srv\<lparr>socketData := (socketData srv)(s := Some (r, userName))\<rparr>;
                srv2 = socket_join srv1 s r;
                room = rooms srv2 r;
                otherParticipants = filter (\<lambda>i. i \<noteq> s) room
            in (srv2,
                (s, ExistingParticipants otherParticipants)
                  # socket_to srv2 s r (UserJoined s userName)))"

definition relay_offer ::
  "server \<Rightarrow> jsstring \<Rightarrow> jsstring option \<Rightarrow> sdp option \<Rightarrow> delivery list" where
  "relay_offer srv s targetId sdp =
     (case (targetId, sdp) of
        (Some t, Some d) \<Rightarrow> if t \<noteq> [] then io_to srv t (Offer s d) else []
      | _ \<Rightarrow> [])"

definition relay_answer ::
  "server \<Rightarrow> jsstring \<Rightarrow> jsstring option \<Rightarrow> sdp option \<Rightarrow> delivery list" where
  "relay_answer srv s targetId sdp =
     (case (targetId, sdp) of
        (Some t, Some d) \<Rightarrow> if t \<noteq> [] then io_to srv t (Answer s d) else []
      | _ \<Rightarrow> [])"

definition relay_ice_candidate ::
  "server \<Rightarrow> jsstring \<Rightarrow> jsstring option \<Rightarrow> candidate option \<Rightarrow> delivery list" where
  "relay_ice_candidate srv s targetId cand =
     (case (targetId, cand) of
        (Some t, Some c) \<Rightarrow> if t \<noteq> [] then io_to srv t (IceCandidate s c) else []
      | _ \<Rightarrow> [])"

text \<open>
  The \<open>chat-message\<close> handler; \<open>now\<close> is the value of \<open>Date.now()\<close>. \<open>message?.trim()\<close> is
  \<open>undefined\<close> for a missing message.
\<close>

definition chat_message ::
  "server \<Rightarrow> jsstring \<Rightarrow> nat \<Rightarrow> jsstring option \<Rightarrow> jsstring option \<Rightarrow> jsstring option
     \<Rightarrow> delivery list" where
  "chat_message srv s now roomId sender message =
     (if truthy roomId \<and> truthy (map_option trim message)
      then io_to srv (the roomId)
             (ChatMessage (or_default sender (js ''Participant'')) (trim (the message)) now)
      else [])"

text \<open>The \<open>disconnecting\<close> handler: \<open>socket.rooms\<close> is the set of rooms of the socket.\<close>

definition disconnecting :: "server \<Rightarrow> jsstring \<Rightarrow> delivery list" where
  "disconnecting srv s =
     concat (map (\<lambda>roomId. if roomId \<noteq> s then socket_to srv s roomId (UserLeft s) else [])
                 (sids srv s))"

section \<open>The video-chat client (LiveVideoChat component)\<close>

subsection \<open>Media tracks, peer connection, recorder\<close>

text \<open>
  Media tracks are objects shared between streams, so they live in a store: a track is
  named by its index in the list \<open>tracks\<close> of the client state, and a \<open>MediaStream\<close> is
  the list of the indices of its tracks. \<open>ended\<close> is \<open>readyState === "ended"\<close>, which
  \<open>track.stop()\<close> sets.
\<close>

datatype trackKind = Video | Audio

record track =
  kind :: trackKind
  enabled :: bool
  ended :: bool

type_synonym stream = "nat list"

text \<open>
  The \<open>RTCPeerConnection\<close> as far as the component uses it: the tracks of its senders, the
  two descriptions and the remote candidates it has accepted.
\<close>

record peer =
  senders :: "nat list"
  localDescription :: "sdp option"
  remoteDescription :: "sdp option"
  iceCandidates :: "candidate list"

definition new_peer :: peer where
  "new_peer = \<lparr>senders = [], localDescription = None, remoteDescription = None,
               iceCandidates = []\<rparr>"

type_synonym bytes = "8 word list"

datatype blob = Blob bytes jsstring

record recorder =
  recorderStream :: stream
  mimeType :: jsstring

record recordingEntry =
  entryId :: jsstring
  entryUrl :: jsstring
  entryFilename :: jsstring
  entryDuration :: nat
  entryCreatedAt :: nat

text \<open>\<open>LiveSessionRecording\<close>, the artifact handed to \<open>onRecordingReady\<close>.\<close>

record liveSessionRecording =
  recId :: jsstring
  recFilename :: jsstring
  recDuration :: nat
  recCreatedAt :: jsstring
  recMimeType :: jsstring
  recDataUrl :: jsstring

record chatEntry =
  msgId :: jsstring
  msgSender :: jsstring
  msgText :: jsstring
  msgTimestamp :: nat

subsection \<open>What the browser does\<close>

text \<open>
  The outcome of every browser call a handler makes is an input of the model:
  \<open>getUserMedia\<close> rejects with an error (and its optional \<open>message\<close>) or returns a stream
  of new tracks of the given kinds; \<open>play()\<close> resolves (\<open>None\<close>, also when there is no
  video element) or rejects; the \<open>RTCPeerConnection\<close> and \<open>MediaRecorder\<close> constructors and
  methods succeed or throw; \<open>timeNow\<close> and \<open>isoNow\<close> are \<open>Date.getTime()\<close> and
  \<open>Date.toISOString()\<close> of the current time, \<open>mathRandom\<close> the text of \<open>Math.random()\<close>,
  and \<open>numberToString\<close> is \<open>Number.prototype.toString\<close> on the numbers that occur as
  timestamps.
\<close>

record platform =
  userMedia :: "jsstring option + trackKind list"
  play :: "jsstring option option"
  newPeerOk :: bool
  createOfferResult :: "sdp option"
  createAnswerResult :: "sdp option"
  setLocalDescriptionOk :: bool
  setRemoteDescriptionOk :: bool
  addIceCandidateOk :: bool
  newRecorderOk :: bool
  recorderStartOk :: bool
  recorderStopOk :: bool
  createObjectURL :: "blob \<Rightarrow> jsstring"
  readAsDataURL :: "blob \<Rightarrow> jsstring option"
  timeNow :: nat
  isoNow :: jsstring
  mathRandom :: jsstring
  numberToString :: "nat \<Rightarrow> jsstring"

subsection \<open>The state of the component\<close>

text \<open>
  The refs (\<open>localStreamRef\<close>, \<open>remoteStreamRef\<close>, \<open>peerRef\<close>, \<open>remoteSocketIdRef\<close>,
  \<open>mediaRecorderRef\<close>, \<open>recordingChunksRef\<close>, \<open>recordingTimerRef\<close>,
  \<open>recordingDurationRef\<close>) and the React state the modelled functions write, together
  with the track store. \<open>onRecordingReady\<close> tells whether the prop is given.
\<close>

record client =
  activeUserName :: jsstring
  onRecordingReady :: bool
  tracks :: "track list"
  localStream :: "stream option"
  remoteStream :: "stream option"
  peerRef :: "peer option"
  remoteSocketId :: "jsstring option"
  mediaRecorder :: "recorder option"
  recordingChunks :: "blob list"
  recordingTimer :: bool
  recordingDurationRef :: nat
  isRecording :: bool
  recordingDuration :: nat
  recordings :: "recordingEntry list"
  chatMessages :: "chatEntry list"
  systemStatus :: jsstring
  cameraError :: "jsstring option"
  isVideoOn :: bool
  isAudioOn :: bool
  hasStream :: bool
  remoteHasStream :: bool

text \<open>
  \<open>activeUserName\<close>: \<open>currentUserName ?? studentName ?? "Participant"\<close>, trimmed, with
  \<open>"Participant"\<close> for an empty result; the prop \<open>studentName\<close> defaults to \<open>"Student"\<close>.
\<close>

definition activeUserName_of :: "jsstring option \<Rightarrow> jsstring option \<Rightarrow> jsstring" where
  "activeUserName_of currentUserName studentName =
     (let baseName = (case currentUserName of
                        Some n \<Rightarrow> n
                      | None \<Rightarrow> (case studentName of Some n \<Rightarrow> n | None \<Rightarrow> js ''Student''))
      in or_default (Some (trim baseName)) (js ''Participant''))"

text \<open>The component when it mounts, before any effect has run.\<close>

definition initial_client :: "jsstring \<Rightarrow> bool \<Rightarrow> client" where
  "initial_client name cb =
     \<lparr>activeUserName = name, onRecordingReady = cb, tracks = [], localStream = None,
      remoteStream = None, peerRef = None, remoteSocketId = None, mediaRecorder = None,
      recordingChunks = [], recordingTimer = False, recordingDurationRef = 0,
      isRecording = False, recordingDuration = 0, recordings = [], chatMessages = [],
      systemStatus = js ''Waiting for participant...'', cameraError = None,
      isVideoOn = False, isAudioOn = False, hasStream = False, remoteHasStream = False\<rparr>"

text \<open>
  The mount effect that fills the chat log with the two welcome messages of the
  system; \<open>t1\<close> and \<open>t2\<close> are the times of its two \<open>new Date()\<close>. The prop \<open>teacherName\<close>
  defaults to \<open>"Teacher"\<close>, and an empty one is replaced by \<open>"Teacher"\<close> in the text. This
  effect runs before the effect that opens the socket and asks for the media.
\<close>

definition welcome_messages :: "nat \<Rightarrow> nat \<Rightarrow> jsstring option \<Rightarrow> chatEntry list" where
  "welcome_messages t1 t2 teacherName =
     [\<lparr>msgId = js ''1'', msgSender = js ''System'',
       msgText = js ''Welcome to the live session with ''
                   @ or_default teacherName (js ''Teacher'') @ js ''!'',
       msgTimestamp = t1\<rparr>,
      \<lparr>msgId = js ''2'', msgSender = js ''System'',
       msgText = js ''You can use the chat to ask questions during the session.'',
       msgTimestamp = t2\<rparr>]"

definition mount_chat :: "nat \<Rightarrow> nat \<Rightarrow> jsstring option \<Rightarrow> client \<Rightarrow> client" where
  "mount_chat t1 t2 teacherName c = c\<lparr>chatMessages := welcome_messages t1 t2 teacherName\<rparr>"

text \<open>What a handler emits on the signaling socket, in order.\<close>

datatype emitted =
    EmitOffer jsstring sdp
  | EmitAnswer jsstring sdp

subsection \<open>Local media\<close>

text \<open>\<open>track.stop()\<close> for every track of a stream.\<close>

definition stop_track :: "nat \<Rightarrow> track list \<Rightarrow> track list" where
  "stop_track i ts = (if i < length ts then ts[i := (ts ! i)\<lparr>ended := True\<rparr>] else ts)"

definition stop_tracks :: "stream \<Rightarrow> track list \<Rightarrow> track list" where
  "stop_tracks st ts = fold stop_track st ts"

definition track_kind :: "track list \<Rightarrow> nat \<Rightarrow> trackKind option" where
  "track_kind ts i = (if i < length ts then Some (kind (ts ! i)) else None)"

text \<open>
  One step of \<open>syncTracksWithPeer\<close>: the first sender whose track has the kind of the new
  track gets it by \<open>replaceTrack\<close>; with no such sender the track is added.
\<close>

fun replace_first :: "track list \<Rightarrow> nat \<Rightarrow> nat list \<Rightarrow> nat list option" where
  "replace_first ts t [] = None"
| "replace_first ts t (s # ss) =
     (if track_kind ts s = track_kind ts t then Some (t # ss)
      else map_option ((#) s) (replace_first ts t ss))"

definition sync_track :: "track list \<Rightarrow> nat \<Rightarrow> peer \<Rightarrow> peer" where
  "sync_track ts t p =
     (case replace_first ts t (senders p) of
        Some ss \<Rightarrow> p\<lparr>senders := ss\<rparr>
      | None \<Rightarrow> p\<lparr>senders := senders p @ [t]\<rparr>)"

definition syncTracksWithPeer :: "stream \<Rightarrow> client \<Rightarrow> client" where
  "syncTracksWithPeer st c =
     (case peerRef c of
        None \<Rightarrow> c
      | Some p \<Rightarrow> c\<lparr>peerRef := Some (fold (sync_track (tracks c)) st p)\<rparr>)"

text \<open>The \<open>catch\<close> branch of \<open>startMedia\<close>.\<close>

definition media_failed :: "jsstring option \<Rightarrow> client \<Rightarrow> client" where
  "media_failed msg c =
     c\<lparr>cameraError :=
          Some (or_default msg
                  (js ''Failed to access camera/microphone. Please check permissions.'')),
       isVideoOn := False, isAudioOn := False, hasStream := False\<rparr>"

definition startMedia :: "platform \<Rightarrow> bool \<Rightarrow> bool \<Rightarrow> client \<Rightarrow> client" where
  "startMedia pf video audio c =
     (let c0 = c\<lparr>cameraError := None\<rparr> in
      case userMedia pf of
        Inl msg \<Rightarrow> media_failed msg c0
      | Inr kinds \<Rightarrow>
          let n = length (tracks c0);
              st = [n ..< n + length kinds];
              fresh = map (\<lambda>k. \<lparr>kind = k, enabled = (if k = Video then video else audio),
                                 ended = False\<rparr>) kinds;
              c1 = c0\<lparr>tracks := tracks c0 @ fresh\<rparr>;
              c2 = (case localStream c1 of
                      None \<Rightarrow> c1
                    | Some old \<Rightarrow> c1\<lparr>tracks := stop_tracks old (tracks c1)\<rparr>);
              c3 = syncTracksWithPeer st (c2\<lparr>localStream := Some st, hasStream := True\<rparr>)
          in (case play pf of None \<Rightarrow> c3 | Some msg \<Rightarrow> media_failed msg c3))"

definition ensureLocalStream :: "platform \<Rightarrow> client \<Rightarrow> client" where
  "ensureLocalStream pf c =
     (case localStream c of
        None \<Rightarrow> (startMedia pf True True c)\<lparr>isVideoOn := True, isAudioOn := True\<rparr>
      | Some _ \<Rightarrow> c)"

subsection \<open>Negotiation\<close>

text \<open>
  \<open>createPeerConnection\<close>: \<open>None\<close> when the constructor throws. The call of
  \<open>syncTracksWithPeer\<close> inside it runs while \<open>peerRef.current\<close> is still \<open>null\<close>.
\<close>

definition createPeerConnection :: "platform \<Rightarrow> client \<Rightarrow> client option" where
  "createPeerConnection pf c =
     (case peerRef c of
        Some p \<Rightarrow> Some c
      | None \<Rightarrow>
          if newPeerOk pf
          then let c1 = (case localStream c of
                           Some st \<Rightarrow> syncTracksWithPeer st c
                         | None \<Rightarrow> c)
               in Some (c1\<lparr>peerRef := Some new_peer\<rparr>)
          else None)"

text \<open>
  The handlers are asynchronous functions; each is modelled as running to its end
  without another event in between. A handler returns the new state and what it emitted.
\<close>

definition initiateOffer :: "platform \<Rightarrow> jsstring \<Rightarrow> client \<Rightarrow> client \<times> emitted list" where
  "initiateOffer pf targetId c =
     (let c1 = ensureLocalStream pf c in
      case createPeerConnection pf c1 of
        None \<Rightarrow> (c1\<lparr>systemStatus := js ''Unable to start call.''\<rparr>, [])
      | Some c2 \<Rightarrow>
          let c3 = c2\<lparr>remoteSocketId := Some targetId\<rparr> in
          (case createOfferResult pf of
             None \<Rightarrow> (c3\<lparr>systemStatus := js ''Unable to start call.''\<rparr>, [])
           | Some offer \<Rightarrow>
               if setLocalDescriptionOk pf
               then (c3\<lparr>peerRef := map_option (\<lambda>p. p\<lparr>localDescription := Some offer\<rparr>)
                                       (peerRef c3),
                        systemStatus := js ''Sending call invitation...''\<rparr>,
                     [EmitOffer targetId offer])
               else (c3\<lparr>systemStatus := js ''Unable to start call.''\<rparr>, [])))"

definition handleExistingParticipants ::
  "platform \<Rightarrow> jsstring list option \<Rightarrow> client \<Rightarrow> client \<times> emitted list" where
  "handleExistingParticipants pf participants c =
     (case (case participants of None \<Rightarrow> [] | Some ps \<Rightarrow> ps) of
        [] \<Rightarrow> (c\<lparr>systemStatus := js ''Waiting for another participant...''\<rparr>, [])
      | firstParticipant # _ \<Rightarrow>
          if firstParticipant \<noteq> []
          then initiateOffer pf firstParticipant
                 (c\<lparr>systemStatus := js ''Participant found. Starting call...''\<rparr>)
          else (c\<lparr>systemStatus := js ''Waiting for another participant...''\<rparr>, []))"

definition handleUserJoined ::
  "platform \<Rightarrow> jsstring \<Rightarrow> jsstring option \<Rightarrow> client \<Rightarrow> client \<times> emitted list" where
  "handleUserJoined pf socketId userName c =
     (if truthy (remoteSocketId c) \<and> remoteSocketId c \<noteq> Some socketId then (c, [])
      else initiateOffer pf socketId
             (c\<lparr>systemStatus :=
                  or_default userName (js ''Participant'')
                    @ js '' joined. Establishing call...''\<rparr>))"

definition handleRemoteOffer ::
  "platform \<Rightarrow> sdp \<Rightarrow> jsstring \<Rightarrow> client \<Rightarrow> client \<times> emitted list" where
  "handleRemoteOffer pf sdp fromId c =
     (let c1 = ensureLocalStream pf c in
      case createPeerConnection pf c1 of
        None \<Rightarrow> (c1, [])
      | Some c2 \<Rightarrow>
          let c3 = c2\<lparr>remoteSocketId := Some fromId\<rparr> in
          if \<not> setRemoteDescriptionOk pf then (c3, [])
          else
            let c4 = c3\<lparr>peerRef := map_option (\<lambda>p. p\<lparr>remoteDescription := Some sdp\<rparr>)
                                      (peerRef c3)\<rparr> in
            (case createAnswerResult pf of
               None \<Rightarrow> (c4, [])
             | Some answer \<Rightarrow>
                 if setLocalDescriptionOk pf
                 then (c4\<lparr>peerRef := map_option (\<lambda>p. p\<lparr>localDescription := Some answer\<rparr>)
                                         (peerRef c4),
                          systemStatus := js ''Connecting to participant...''\<rparr>,
                       [EmitAnswer fromId answer])
                 else (c4, [])))"

definition handleRemoteAnswer :: "platform \<Rightarrow> sdp \<Rightarrow> client \<Rightarrow> client" where
  "handleRemoteAnswer pf sdp c =
     (case peerRef c of
        None \<Rightarrow> c
      | Some p \<Rightarrow>
          if setRemoteDescriptionOk pf
          then c\<lparr>peerRef := Some (p\<lparr>remoteDescription := Some sdp\<rparr>),
                 systemStatus := js ''Participant connected.''\<rparr>
          else c)"

text \<open>
  \<open>peer.addIceCandidate\<close> rejects with \<open>InvalidStateError\<close> while the connection has no
  remote description (WebRTC 1.0, section 4.4.2); otherwise it accepts the candidate or
  rejects it as the browser decides.
\<close>

definition addIceCandidate :: "platform \<Rightarrow> candidate \<Rightarrow> peer \<Rightarrow> peer option" where
  "addIceCandidate pf cand p =
     (if remoteDescription p = None then None
      else if addIceCandidateOk pf then Some (p\<lparr>iceCandidates := iceCandidates p @ [cand]\<rparr>)
      else None)"

definition handleRemoteCandidate :: "platform \<Rightarrow> candidate \<Rightarrow> client \<Rightarrow> client" where
  "handleRemoteCandidate pf cand c =
     (case peerRef c of
        None \<Rightarrow> c
      | Some p \<Rightarrow>
          (case addIceCandidate pf cand p of
             None \<Rightarrow> c
           | Some p' \<Rightarrow> c\<lparr>peerRef := Some p'\<rparr>))"

text \<open>The listeners registered inline for \<open>answer\<close> and \<open>ice-candidate\<close>.\<close>

definition on_answer :: "platform \<Rightarrow> jsstring option \<Rightarrow> sdp \<Rightarrow> client \<Rightarrow> client" where
  "on_answer pf from sdp c = handleRemoteAnswer pf sdp (c\<lparr>remoteSocketId := from\<rparr>)"

definition on_ice_candidate ::
  "platform \<Rightarrow> jsstring option \<Rightarrow> candidate \<Rightarrow> client \<Rightarrow> client" where
  "on_ice_candidate pf from cand c =
     handleRemoteCandidate pf cand
       (if truthy from then c\<lparr>remoteSocketId := from\<rparr> else c)"

text \<open>
  \<open>peer.ontrack\<close>: the browser has created the remote tracks (\<open>remote_tracks\<close> puts them
  into the store) and hands over the stream they belong to.
\<close>

definition remote_tracks :: "trackKind list \<Rightarrow> client \<Rightarrow> stream \<times> client" where
  "remote_tracks kinds c =
     ([length (tracks c) ..< length (tracks c) + length kinds],
      c\<lparr>tracks := tracks c
           @ map (\<lambda>k. \<lparr>kind = k, enabled = True, ended = False\<rparr>) kinds\<rparr>)"

definition peer_ontrack :: "stream option \<Rightarrow> client \<Rightarrow> client" where
  "peer_ontrack streams c =
     (case streams of None \<Rightarrow> c | Some st \<Rightarrow> c\<lparr>remoteStream := Some st\<rparr>)
       \<lparr>remoteHasStream := True, systemStatus := js ''Participant connected.''\<rparr>"

subsection \<open>Chat\<close>

text \<open>
  The decimal digits of a non-negative integer. \<open>Number.prototype.toString\<close> gives
  exactly these digits for an integer below \<open>10^21\<close> (above that it switches to exponent
  form), so the handlers take the text of a number from the browser and \<open>decimal\<close> is
  only what the browser of the scenarios prints, where every number is a timestamp of
  thirteen digits.
\<close>

fun decimal :: "nat \<Rightarrow> jsstring" where
  "decimal n = (if n < 10 then [of_nat (48 + n)]
                else decimal (n div 10) @ [of_nat (48 + n mod 10)])"

definition handleChatMessage ::
  "platform \<Rightarrow> jsstring \<Rightarrow> jsstring \<Rightarrow> nat \<Rightarrow> client \<Rightarrow> client" where
  "handleChatMessage pf sender message timestamp c =
     (if sender = activeUserName c then c
      else c\<lparr>chatMessages := chatMessages c
                @ [\<lparr>msgId = numberToString pf timestamp @ js ''-'' @ mathRandom pf,
                    msgSender = sender, msgText = message,
                    msgTimestamp = timestamp\<rparr>]\<rparr>)"

subsection \<open>Recording\<close>

definition buildRecordingStream :: "client \<Rightarrow> stream option \<times> client" where
  "buildRecordingStream c =
     (case remoteStream c of
        None \<Rightarrow> (None, c)
      | Some remote \<Rightarrow>
          (case localStream c of
             None \<Rightarrow> (Some remote, c)
           | Some local \<Rightarrow>
               let audio = filter (\<lambda>i. track_kind (tracks c) i = Some Audio) local;
                   n = length (tracks c);
                   clones = map (\<lambda>i. tracks c ! i) audio
               in (Some (remote @ [n ..< n + length audio]),
                   c\<lparr>tracks := tracks c @ clones\<rparr>)))"

definition stopRecordingTimer :: "client \<Rightarrow> client" where
  "stopRecordingTimer c = (if recordingTimer c then c\<lparr>recordingTimer := False\<rparr> else c)"

definition startRecording :: "platform \<Rightarrow> client \<Rightarrow> client" where
  "startRecording pf c =
     (if isRecording c then c
      else
        case buildRecordingStream c of
          (None, c1) \<Rightarrow>
            c1\<lparr>systemStatus := js ''Recording unavailable until the session is live.''\<rparr>
        | (Some st, c1) \<Rightarrow>
            let failed = (\<lambda>c'. c'\<lparr>systemStatus := js ''This browser does not support recording.'',
                                   tracks := stop_tracks st (tracks c')\<rparr>)
            in if \<not> newRecorderOk pf then failed c1
               else
                 let c2 = c1\<lparr>recordingChunks := []\<rparr> in
                 if \<not> recorderStartOk pf then failed c2
                 else c2\<lparr>mediaRecorder :=
                            Some \<lparr>recorderStream = st,
                                  mimeType = js ''video/webm;codecs=vp9,opus''\<rparr>,
                          isRecording := True, recordingDuration := 0,
                          recordingDurationRef := 0, recordingTimer := True,
                          systemStatus := js ''Recording in progress...''\<rparr>)"

text \<open>The interval callback and \<open>recorder.ondataavailable\<close>.\<close>

definition recording_tick :: "client \<Rightarrow> client" where
  "recording_tick c =
     c\<lparr>recordingDuration := recordingDuration c + 1,
       recordingDurationRef := recordingDuration c + 1\<rparr>"

definition recorder_ondataavailable :: "blob option \<Rightarrow> client \<Rightarrow> client" where
  "recorder_ondataavailable d c =
     (case d of
        Some (Blob bs ty) \<Rightarrow>
          if bs \<noteq> [] then c\<lparr>recordingChunks := recordingChunks c @ [Blob bs ty]\<rparr> else c
      | None \<Rightarrow> c)"

text \<open>\<open>new Blob(parts, {type})\<close> and \<open>s.replace(/[:.]/g, "-")\<close>.\<close>

definition new_blob :: "blob list \<Rightarrow> jsstring \<Rightarrow> blob" where
  "new_blob parts ty = Blob (concat (map (\<lambda>b. case b of Blob bs _ \<Rightarrow> bs) parts)) ty"

definition replace_colon_dot :: "jsstring \<Rightarrow> jsstring" where
  "replace_colon_dot s = map (\<lambda>c. if c = 0x3A \<or> c = 0x2E then 0x2D else c) s"

text \<open>
  \<open>recorder.onstop\<close>, which the browser calls after a successful \<open>recorder.stop()\<close>. It
  returns the new state and the artifacts handed to \<open>onRecordingReady\<close>.
\<close>

definition recorder_onstop ::
  "platform \<Rightarrow> recorder \<Rightarrow> client \<Rightarrow> client \<times> liveSessionRecording list" where
  "recorder_onstop pf r c =
     (let blob = new_blob (recordingChunks c) (mimeType r);
          filename = js ''session-'' @ replace_colon_dot (isoNow pf) @ js ''.webm'';
          duration = recordingDurationRef c;
          c1 = c\<lparr>recordings := recordings c
                    @ [\<lparr>entryId = numberToString pf (timeNow pf), entryUrl = createObjectURL pf blob,
                        entryFilename = filename, entryDuration = duration,
                        entryCreatedAt = timeNow pf\<rparr>],
                 recordingChunks := [], recordingDuration := 0, recordingDurationRef := 0\<rparr>
      in if onRecordingReady c
         then (case readAsDataURL pf blob of
                 Some dataUrl \<Rightarrow>
                   (c1, [\<lparr>recId = numberToString pf (timeNow pf), recFilename = filename,
                          recDuration = duration, recCreatedAt = isoNow pf,
                          recMimeType = mimeType r, recDataUrl = dataUrl\<rparr>])
               | None \<Rightarrow> (c1, []))
         else (c1, []))"

text \<open>
  \<open>stopRecording\<close>. It also returns the recorder whose \<open>stop\<close> event is now pending, if
  \<open>recorder.stop()\<close> did not throw.
\<close>

definition stopRecording :: "platform \<Rightarrow> client \<Rightarrow> client \<times> recorder option" where
  "stopRecording pf c =
     (case mediaRecorder c of
        None \<Rightarrow> (c, None)
      | Some r \<Rightarrow>
          ((stopRecordingTimer
              (c\<lparr>tracks := stop_tracks (recorderStream r) (tracks c),
                 mediaRecorder := None\<rparr>))
             \<lparr>isRecording := False, systemStatus := js ''Recording saved.''\<rparr>,
           if recorderStopOk pf then Some r else None))"

section \<open>Scenarios\<close>

text \<open>
  Two connections \<open>A1\<close> and \<open>B2\<close>. In \<open>one_party_room\<close> both are connected and \<open>A1\<close> has
  joined room \<open>r1\<close> as Alice; in \<open>two_party_room\<close> \<open>B2\<close> has joined it too, as Bob; in
  \<open>two_shared_rooms\<close> both have then joined a second room \<open>r2\<close> as well.
\<close>

definition one_party_room :: server where
  "one_party_room =
     fst (join_room (connection (connection init_server (js ''A1'')) (js ''B2''))
            (js ''A1'') (Some (js ''r1'')) (Some (js ''Alice'')))"

definition two_party_room :: server where
  "two_party_room =
     fst (join_room one_party_room (js ''B2'') (Some (js ''r1'')) (Some (js ''Bob'')))"

definition two_shared_rooms :: server where
  "two_shared_rooms =
     fst (join_room
            (fst (join_room two_party_room (js ''A1'') (Some (js ''r2''))
                    (Some (js ''Alice''))))
            (js ''B2'') (Some (js ''r2'')) (Some (js ''Bob'')))"

text \<open>A browser in which every call succeeds.\<close>

definition good_platform :: platform where
  "good_platform =
     \<lparr>userMedia = Inr [Video, Audio], play = None, newPeerOk = True,
      createOfferResult = Some 1, createAnswerResult = Some 2,
      setLocalDescriptionOk = True, setRemoteDescriptionOk = True,
      addIceCandidateOk = True, newRecorderOk = True, recorderStartOk = True,
      recorderStopOk = True, createObjectURL = (\<lambda>_. js ''blob:1''),
      readAsDataURL = (\<lambda>_. Some (js ''data:video/webm;base64,AQID'')),
      timeNow = 1700000000000, isoNow = js ''2023-11-14T22:13:20.000Z'',
      mathRandom = js ''0.5'', numberToString = decimal\<rparr>"

text \<open>
  Alice's client has mounted (the welcome messages are in its chat log), has its camera
  and microphone and has been told that the room is empty. Bob's client has its media (\<open>bob_joining\<close>), learns that \<open>A1\<close> is in the room and
  sends its offer (\<open>bob_offering\<close>), receives candidate 7 from \<open>A1\<close>
  (\<open>bob_early_candidate\<close>), then the answer (\<open>bob_answered\<close>), then the remote video and
  audio tracks (\<open>bob_live\<close>); it starts a recording, which runs for one second and
  delivers one chunk (\<open>bob_recording\<close>).
\<close>

definition alice_waiting :: client where
  "alice_waiting =
     fst (handleExistingParticipants good_platform (Some [])
            (ensureLocalStream good_platform
               (mount_chat 1699999999000 1699999999000 None
                  (initial_client (js ''Alice'') True))))"

definition bob_joining :: client where
  "bob_joining =
     ensureLocalStream good_platform
       (mount_chat 1699999999000 1699999999000 None (initial_client (js ''Bob'') True))"

definition bob_offering :: client where
  "bob_offering =
     fst (handleExistingParticipants good_platform (Some [js ''A1'']) bob_joining)"

definition bob_early_candidate :: client where
  "bob_early_candidate = on_ice_candidate good_platform (Some (js ''A1'')) 7 bob_offering"

definition bob_answered :: client where
  "bob_answered = on_answer good_platform (Some (js ''A1'')) 2 bob_early_candidate"

definition bob_live :: client where
  "bob_live =
     (case remote_tracks [Video, Audio] bob_answered of
        (st, c) \<Rightarrow> peer_ontrack (Some st) c)"

definition bob_recording :: client where
  "bob_recording =
     recorder_ondataavailable (Some (Blob [1, 2, 3] (js ''video/webm'')))
       (recording_tick (startRecording good_platform bob_live))"

text \<open>
  Alice's client receives candidate 7 from \<open>B2\<close> while it has no peer connection, and
  only then the offer of \<open>B2\<close>, which it answers.
\<close>

definition alice_early_candidate :: client where
  "alice_early_candidate =
     on_ice_candidate good_platform (Some (js ''B2'')) 7 alice_waiting"

definition alice_answering :: client where
  "alice_answering = fst (handleRemoteOffer good_platform 1 (js ''B2'') alice_early_candidate)"

section \<open>Strings\<close>

lemma trim_empty_iff: "trim s = [] \<longleftrightarrow> (\<forall>c \<in> set s. isWhiteSpace c)"
proof
  assume "trim s = []"
  then have all_ws: "\<forall>c \<in> set (dropWhile isWhiteSpace s). isWhiteSpace c"
    by (simp add: trim_def)
  have "dropWhile isWhiteSpace s = []"
  proof (rule ccontr)
    assume ne: "dropWhile isWhiteSpace s \<noteq> []"
    then have "\<not> isWhiteSpace (hd (dropWhile isWhiteSpace s))"
      by (rule hd_dropWhile)
    moreover from ne have "hd (dropWhile isWhiteSpace s) \<in> set (dropWhile isWhiteSpace s)"
      by (rule hd_in_set)
    ultimately show False using all_ws by blast
  qed
  then show "\<forall>c \<in> set s. isWhiteSpace c"
    by simp
next
  assume "\<forall>c \<in> set s. isWhiteSpace c"
  then show "trim s = []"
    by (auto simp: trim_def dest: set_dropWhileD)
qed

lemma has_text_trim: "\<exists>c \<in> set m. \<not> isWhiteSpace c \<Longrightarrow> trim m \<noteq> []"
  by (simp add: trim_empty_iff)

text \<open>Distinct ASCII literals are distinct JavaScript strings.\<close>

lemma js_inject: "js a = js b \<longleftrightarrow> a = b"
proof -
  have "inj (of_char :: char \<Rightarrow> 16 word)"
  proof (rule injI)
    fix c d :: char
    assume "(of_char c :: 16 word) = of_char d"
    then have "unat (of_nat (of_char c) :: 16 word) = unat (of_nat (of_char d) :: 16 word)"
      by (simp add: of_nat_of_char)
    moreover have "of_char c < (65536 :: nat)" "of_char d < (65536 :: nat)"
      using nat_of_char_less_256 [of c] nat_of_char_less_256 [of d] by linarith+
    ultimately have "(of_char c :: nat) = of_char d"
      by (simp add: unat_of_nat take_bit_nat_eq_self)
    then show "c = d" by simp
  qed
  then show ?thesis unfolding js_def by (simp add: inj_map_eq_map)
qed

lemma js_Nil: "js a = [] \<longleftrightarrow> a = []" "[] = js a \<longleftrightarrow> a = []"
  by (auto simp: js_def)

lemma trim_literals:
  "trim (js ''hello'') = js ''hello''"
  "trim (js ''hi'') = js ''hi''"
  "trim (js '' hi '') = js ''hi''"
  by (simp_all add: trim_def js_def isWhiteSpace_def)

text \<open>The display name a client uses is never empty.\<close>

lemma activeUserName_of_nonempty: "activeUserName_of currentUserName studentName \<noteq> []"
  by (simp add: activeUserName_of_def or_default_def Let_def js_Nil)

lemma decimal_now: "decimal 1700000000000 = js ''1700000000000''"
  by (simp add: js_def)

section \<open>The room registry\<close>

text \<open>
  Membership lists stay free of duplicates, as the \<open>Set\<close>s they stand for: the property
  holds initially and every operation keeps it.
\<close>

lemma distinct_set_add: "distinct xs \<Longrightarrow> distinct (set_add x xs)"
  by (simp add: set_add_def)

lemma init_server_distinct: "distinct (rooms init_server r)"
  by (simp add: init_server_def)

lemma socket_join_distinct:
  "\<forall>r. distinct (rooms srv r) \<Longrightarrow> \<forall>r. distinct (rooms (socket_join srv s r') r)"
  by (simp add: socket_join_def distinct_set_add)

lemma connection_distinct:
  "\<forall>r. distinct (rooms srv r) \<Longrightarrow> \<forall>r. distinct (rooms (connection srv s) r)"
  unfolding connection_def by (rule socket_join_distinct)

lemma join_room_distinct:
  "\<forall>r. distinct (rooms srv r)
     \<Longrightarrow> \<forall>r. distinct (rooms (fst (join_room srv s roomId userName)) r)"
  by (auto simp: join_room_def Let_def socket_join_def distinct_set_add split: option.splits)

lemmas server_defs = join_room_def connection_def socket_join_def init_server_def set_add_def
  socket_to_def

lemma one_party_room_r1: "rooms one_party_room (js ''r1'') = [js ''A1'']"
  by (simp add: one_party_room_def server_defs js_inject js_Nil Let_def)

lemma two_party_room_simps:
  "rooms two_party_room =
     (\<lambda>_. [])(js ''A1'' := [js ''A1''], js ''B2'' := [js ''B2''],
               js ''r1'' := [js ''A1'', js ''B2''])"
  "sids two_party_room =
     (\<lambda>_. [])(js ''A1'' := [js ''A1'', js ''r1''], js ''B2'' := [js ''B2'', js ''r1''])"
  by (simp_all add: two_party_room_def one_party_room_def server_defs js_inject js_Nil
      Let_def fun_upd_twist)

lemma two_party_room_r1: "rooms two_party_room (js ''r1'') = [js ''A1'', js ''B2'']"
  by (simp add: two_party_room_simps)

lemma two_shared_rooms_simps:
  "rooms two_shared_rooms =
     (\<lambda>_. [])(js ''A1'' := [js ''A1''], js ''B2'' := [js ''B2''],
               js ''r1'' := [js ''A1'', js ''B2''], js ''r2'' := [js ''A1'', js ''B2''])"
  "sids two_shared_rooms (js ''A1'') = [js ''A1'', js ''r1'', js ''r2'']"
  by (simp_all add: two_shared_rooms_def two_party_room_simps server_defs js_inject js_Nil
      Let_def)

text \<open>How often one recipient occurs among the deliveries of a broadcast.\<close>

lemma count_socket_to:
  assumes "distinct (rooms srv r)" and "x \<noteq> s"
  shows "count_list (socket_to srv s r ev) (x, ev) = (if x \<in> set (rooms srv r) then 1 else 0)"
proof -
  have "count_list (map (\<lambda>y. (y, ev)) ys) (x, ev) = count_list ys x" for ys
    by (induction ys) auto
  moreover have "distinct ys \<Longrightarrow>
      count_list (filter (\<lambda>y. y \<noteq> s) ys) x = (if x \<in> set ys then 1 else 0)" for ys
    using assms(2) by (induction ys) auto
  ultimately show ?thesis using assms(1) by (simp add: socket_to_def)
qed

lemma count_concat_map:
  "count_list (concat (map f xs)) y = sum_list (map (\<lambda>x. count_list (f x) y) xs)"
  by (induction xs) auto

lemma sum_list_indicator:
  "sum_list (map (\<lambda>x. if P x then 1 else 0) xs) = length (filter P xs)"
  by (induction xs) auto

section \<open>The scenarios, evaluated\<close>

lemmas client_defs =
  initial_client_def mount_chat_def ensureLocalStream_def startMedia_def syncTracksWithPeer_def
  handleExistingParticipants_def initiateOffer_def createPeerConnection_def new_peer_def
  media_failed_def stop_tracks_def stop_track_def handleUserJoined_def

lemma bob_joining_simps:
  "tracks bob_joining = [\<lparr>kind = Video, enabled = True, ended = False\<rparr>,
                        \<lparr>kind = Audio, enabled = True, ended = False\<rparr>]"
  "localStream bob_joining = Some [0, 1]"
  "peerRef bob_joining = None"
  "remoteStream bob_joining = None"
  "remoteSocketId bob_joining = None"
  by (simp_all add: bob_joining_def good_platform_def client_defs Let_def upt_rec)

lemma bob_offering_simps:
  "tracks bob_offering = [\<lparr>kind = Video, enabled = True, ended = False\<rparr>,
                         \<lparr>kind = Audio, enabled = True, ended = False\<rparr>]"
  "localStream bob_offering = Some [0, 1]"
  "peerRef bob_offering = Some \<lparr>senders = [], localDescription = Some 1,
                                 remoteDescription = None, iceCandidates = []\<rparr>"
  "remoteStream bob_offering = None"
  "remoteSocketId bob_offering = Some (js ''A1'')"
  "mediaRecorder bob_offering = None"
  "isRecording bob_offering = False"
  "onRecordingReady bob_offering = True"
  "recordingDurationRef bob_offering = 0"
  "recordingDuration bob_offering = 0"
  "recordingChunks bob_offering = []"
  "recordings bob_offering = []"
  "snd (handleExistingParticipants good_platform (Some [js ''A1'']) bob_joining)
     = [EmitOffer (js ''A1'') 1]"
  by (simp_all add: bob_offering_def bob_joining_def good_platform_def client_defs Let_def
      upt_rec js_Nil)

lemma alice_waiting_simps:
  "localStream alice_waiting = Some [0, 1]"
  "peerRef alice_waiting = None"
  "remoteStream alice_waiting = None"
  "remoteSocketId alice_waiting = None"
  "mediaRecorder alice_waiting = None"
  "recordingChunks alice_waiting = []"
  "isRecording alice_waiting = False"
  "activeUserName alice_waiting = js ''Alice''"
  "chatMessages alice_waiting = welcome_messages 1699999999000 1699999999000 None"
  by (simp_all add: alice_waiting_def good_platform_def client_defs Let_def upt_rec)

lemma alice_answering_simps:
  "peerRef alice_early_candidate = None"
  "peerRef alice_answering = Some \<lparr>senders = [], localDescription = Some 2,
                                    remoteDescription = Some 1, iceCandidates = []\<rparr>"
  by (simp_all add: alice_answering_def alice_early_candidate_def on_ice_candidate_def
      handleRemoteCandidate_def handleRemoteOffer_def ensureLocalStream_def
      createPeerConnection_def syncTracksWithPeer_def new_peer_def truthy_def
      alice_waiting_simps good_platform_def js_Nil Let_def)

lemma bob_answered_simps:
  "peerRef bob_early_candidate = peerRef bob_offering"
  "tracks bob_answered = tracks bob_offering"
  "localStream bob_answered = Some [0, 1]"
  "peerRef bob_answered = Some \<lparr>senders = [], localDescription = Some 1,
                                 remoteDescription = Some 2, iceCandidates = []\<rparr>"
  "remoteStream bob_answered = None"
  "mediaRecorder bob_answered = None"
  "isRecording bob_answered = False"
  "onRecordingReady bob_answered = True"
  "recordingDurationRef bob_answered = 0"
  "recordingDuration bob_answered = 0"
  "recordingChunks bob_answered = []"
  "recordings bob_answered = []"
  by (simp_all add: bob_answered_def bob_early_candidate_def on_answer_def
      on_ice_candidate_def handleRemoteAnswer_def handleRemoteCandidate_def
      addIceCandidate_def truthy_def bob_offering_simps good_platform_def js_Nil)

lemma bob_live_simps:
  "tracks bob_live = [\<lparr>kind = Video, enabled = True, ended = False\<rparr>,
                     \<lparr>kind = Audio, enabled = True, ended = False\<rparr>,
                     \<lparr>kind = Video, enabled = True, ended = False\<rparr>,
                     \<lparr>kind = Audio, enabled = True, ended = False\<rparr>]"
  "localStream bob_live = Some [0, 1]"
  "remoteStream bob_live = Some [2, 3]"
  "mediaRecorder bob_live = None"
  "isRecording bob_live = False"
  "onRecordingReady bob_live = True"
  "recordingDurationRef bob_live = 0"
  "recordingDuration bob_live = 0"
  "recordingChunks bob_live = []"
  "recordings bob_live = []"
  by (simp_all add: bob_live_def remote_tracks_def peer_ontrack_def bob_answered_simps
      bob_offering_simps upt_rec)

lemma bob_recording_simps:
  "tracks bob_recording = [\<lparr>kind = Video, enabled = True, ended = False\<rparr>,
                          \<lparr>kind = Audio, enabled = True, ended = False\<rparr>,
                          \<lparr>kind = Video, enabled = True, ended = False\<rparr>,
                          \<lparr>kind = Audio, enabled = True, ended = False\<rparr>,
                          \<lparr>kind = Audio, enabled = True, ended = False\<rparr>]"
  "localStream bob_recording = Some [0, 1]"
  "remoteStream bob_recording = Some [2, 3]"
  "mediaRecorder bob_recording = Some \<lparr>recorderStream = [2, 3, 4],
                                        mimeType = js ''video/webm;codecs=vp9,opus''\<rparr>"
  "isRecording bob_recording = True"
  "recordingChunks bob_recording = [Blob [1, 2, 3] (js ''video/webm'')]"
  "recordingDurationRef bob_recording = 1"
  "onRecordingReady bob_recording = True"
  "recordings bob_recording = []"
  by (simp_all add: bob_recording_def recorder_ondataavailable_def recording_tick_def
      startRecording_def buildRecordingStream_def track_kind_def bob_live_simps
      good_platform_def upt_rec Let_def)

lemma bob_stopped_simps:
  "map ended (tracks (fst (stopRecording good_platform bob_recording)))
     = [False, False, True, True, True]"
  "remoteStream (fst (stopRecording good_platform bob_recording)) = Some [2, 3]"
  "localStream (fst (stopRecording good_platform bob_recording)) = Some [0, 1]"
  "snd (stopRecording good_platform bob_recording)
     = Some \<lparr>recorderStream = [2, 3, 4], mimeType = js ''video/webm;codecs=vp9,opus''\<rparr>"
  by (simp_all add: stopRecording_def stopRecordingTimer_def stop_tracks_def stop_track_def
      bob_recording_simps good_platform_def)

lemma bob_artifact:
  "snd (recorder_onstop good_platform
          \<lparr>recorderStream = [2, 3, 4], mimeType = js ''video/webm;codecs=vp9,opus''\<rparr>
          (fst (stopRecording good_platform bob_recording)))
     = [\<lparr>recId = js ''1700000000000'',
         recFilename = js ''session-2023-11-14T22-13-20-000Z.webm'',
         recDuration = 1, recCreatedAt = js ''2023-11-14T22:13:20.000Z'',
         recMimeType = js ''video/webm;codecs=vp9,opus'',
         recDataUrl = js ''data:video/webm;base64,AQID''\<rparr>]"
  by (simp add: recorder_onstop_def stopRecording_def stopRecordingTimer_def
      bob_recording_simps good_platform_def replace_colon_dot_def new_blob_def Let_def js_def)

section \<open>Chat relay\<close>

text \<open>
  Claim C7. A \<open>chat-message\<close> event whose text is missing, empty or made of white space
  only makes the server emit nothing, to anyone.
\<close>

theorem chat_message_whitespace_dropped:
  assumes "case message of None \<Rightarrow> True | Some m \<Rightarrow> \<forall>c \<in> set m. isWhiteSpace c"
  shows "chat_message srv s now roomId sender message = []"
proof (cases message)
  case None
  then show ?thesis by (simp add: chat_message_def truthy_def)
next
  case (Some m)
  with assms have "trim m = []" by (simp add: trim_empty_iff)
  with Some show ?thesis by (simp add: chat_message_def truthy_def)
qed

text \<open>
  In the room of Alice and Bob, a text of a space, a tab, a no-break space and an em
  space is dropped.
\<close>

theorem chat_message_whitespace_dropped_witness:
  "(case Some (js '' '' @ [0x9, 0xA0, 0x2003]) of None \<Rightarrow> True
      | Some m \<Rightarrow> \<forall>c \<in> set m. isWhiteSpace c)
   \<and> rooms two_party_room (js ''r1'') = [js ''A1'', js ''B2'']
   \<and> chat_message two_party_room (js ''A1'') 1000 (Some (js ''r1'')) (Some (js ''Alice''))
        (Some (js '' '' @ [0x9, 0xA0, 0x2003])) = []"
proof -
  have h: "case Some (js '' '' @ [0x9, 0xA0, 0x2003]) of None \<Rightarrow> True
      | Some m \<Rightarrow> \<forall>c \<in> set m. isWhiteSpace c"
    by (simp add: js_def isWhiteSpace_def)
  from h chat_message_whitespace_dropped [OF h] two_party_room_r1 show ?thesis
    by blast
qed

text \<open>
  Claim C10, as stated, fails: the handler broadcasts only for an event with a room
  identifier. \<open>B2\<close> sends the text \<open>hi\<close> with no sender and no room identifier, and the
  server emits nothing.
\<close>

theorem chat_message_no_room_counterexample:
  "trim (js ''hi'') = js ''hi'' \<and> js ''hi'' \<noteq> []
   \<and> rooms two_party_room (js ''r1'') = [js ''A1'', js ''B2'']
   \<and> chat_message two_party_room (js ''B2'') 1000 None None (Some (js ''hi'')) = []
   \<and> chat_message two_party_room (js ''B2'') 1000 (Some []) None (Some (js ''hi'')) = []"
  by (simp add: chat_message_def truthy_def trim_literals js_Nil two_party_room_r1)

text \<open>
  Claim C10, amended. A \<open>chat-message\<close> event with a room identifier, a text that is not
  all white space and a missing or empty sender is broadcast with the sender
  \<open>"Participant"\<close>: the deliveries are one for each member of the room, each with that
  sender, the trimmed text and the server's timestamp.
\<close>

theorem chat_message_default_sender:
  assumes "r \<noteq> []"
    and "sender = None \<or> sender = Some []"
    and "\<exists>c \<in> set m. \<not> isWhiteSpace c"
  shows "chat_message srv s now (Some r) sender (Some m) =
           map (\<lambda>x. (x, ChatMessage (js ''Participant'') (trim m) now)) (rooms srv r)"
proof -
  from assms(2) have sd: "or_default sender (js ''Participant'') = js ''Participant''"
    by (auto simp: or_default_def)
  from assms(3) have tr: "trim m \<noteq> []" by (rule has_text_trim)
  show ?thesis
    using sd tr assms(1) by (simp add: chat_message_def truthy_def io_to_def)
qed

theorem chat_message_default_sender_witness:
  "js ''r1'' \<noteq> [] \<and> (None = None \<or> None = Some ([] :: jsstring))
   \<and> (\<exists>c \<in> set (js '' hi ''). \<not> isWhiteSpace c)
   \<and> chat_message two_party_room (js ''B2'') 1000 (Some (js ''r1'')) None (Some (js '' hi ''))
       = [(js ''A1'', ChatMessage (js ''Participant'') (js ''hi'') 1000),
          (js ''B2'', ChatMessage (js ''Participant'') (js ''hi'') 1000)]"
proof -
  have h0: "js ''r1'' \<noteq> []" by (simp add: js_Nil)
  have h1: "None = None \<or> None = Some ([] :: jsstring)" by simp
  have h2: "\<exists>c \<in> set (js '' hi ''). \<not> isWhiteSpace c"
    by (simp add: js_def isWhiteSpace_def)
  from chat_message_default_sender [OF h0 h1 h2, of two_party_room "js ''B2''" 1000]
  show ?thesis using h0 h2 two_party_room_r1 by (simp add: trim_literals)
qed

text \<open>
  Claim C2, as stated, fails: the handler emits with \<open>io.to(roomId)\<close>, which reaches the
  sending connection too. Alice's connection \<open>A1\<close> is a member of \<open>r1\<close>, sends \<open>hello\<close>
  and is handed its own message.
\<close>

theorem chat_message_echo_counterexample:
  "js ''A1'' \<in> set (rooms two_party_room (js ''r1''))
   \<and> (js ''A1'', ChatMessage (js ''Alice'') (js ''hello'') 1000)
       \<in> set (chat_message two_party_room (js ''A1'') 1000 (Some (js ''r1''))
                (Some (js ''Alice'')) (Some (js ''hello'')))"
proof -
  have s: "or_default (Some (js ''Alice'')) (js ''Participant'') = js ''Alice''"
    by (simp add: or_default_def js_Nil)
  have ne: "js ''r1'' \<noteq> []" "js ''hello'' \<noteq> []" by (simp_all add: js_Nil)
  show ?thesis
    using s ne
    by (simp add: chat_message_def truthy_def io_to_def two_party_room_r1 trim_literals)
qed

text \<open>
  Claim C2, amended. For a \<open>chat-message\<close> event with a room identifier and a text that
  is not all white space, the broadcast (sender or \<open>"Participant"\<close>, trimmed text, the
  server's timestamp) is delivered to every member of that room, the sending
  connection included when it is a member of the room.
\<close>

theorem chat_message_whole_room:
  assumes "r \<noteq> []" and "\<exists>c \<in> set m. \<not> isWhiteSpace c"
  shows "chat_message srv s now (Some r) sender (Some m) =
           map (\<lambda>x. (x, ChatMessage (or_default sender (js ''Participant'')) (trim m) now))
               (rooms srv r)
         \<and> (s \<in> set (rooms srv r) \<longrightarrow>
              (s, ChatMessage (or_default sender (js ''Participant'')) (trim m) now)
                \<in> set (chat_message srv s now (Some r) sender (Some m)))"
proof -
  from assms(2) have tr: "trim m \<noteq> []" by (rule has_text_trim)
  with assms(1) show ?thesis
    by (auto simp: chat_message_def truthy_def io_to_def)
qed

theorem chat_message_whole_room_witness:
  "js ''r1'' \<noteq> [] \<and> (\<exists>c \<in> set (js ''hello''). \<not> isWhiteSpace c)
   \<and> chat_message two_party_room (js ''A1'') 1000 (Some (js ''r1'')) (Some (js ''Alice''))
        (Some (js ''hello''))
       = [(js ''A1'', ChatMessage (js ''Alice'') (js ''hello'') 1000),
          (js ''B2'', ChatMessage (js ''Alice'') (js ''hello'') 1000)]"
proof -
  have h1: "js ''r1'' \<noteq> []" by (simp add: js_Nil)
  have h2: "\<exists>c \<in> set (js ''hello''). \<not> isWhiteSpace c"
    by (simp add: js_def isWhiteSpace_def)
  have s: "or_default (Some (js ''Alice'')) (js ''Participant'') = js ''Alice''"
    by (simp add: or_default_def js_Nil)
  from chat_message_whole_room [OF h1 h2, of two_party_room "js ''A1''" 1000 "Some (js ''Alice'')"]
  show ?thesis using h1 h2 s two_party_room_r1 by (simp add: trim_literals)
qed

text \<open>
  Claim C9. The client discards every incoming \<open>chat-message\<close> whose sender equals its
  own \<open>activeUserName\<close>: its state, and so its chat log, is unchanged. The handler sees
  the sender field only, so this holds whichever connection \<open>s\<close> the message came from:
  when the sender the server stamps is the client's own name, every broadcast of that
  message is discarded by the client.
\<close>

theorem own_name_chat_discarded:
  "handleChatMessage pf (activeUserName c) message timestamp c = c
   \<and> (or_default sender (js ''Participant'') = activeUserName c \<longrightarrow>
        (\<forall>d \<in> set (chat_message srv s now roomId sender msg).
           \<exists>tx ts. snd d = ChatMessage (activeUserName c) tx ts
                    \<and> handleChatMessage pf (activeUserName c) tx ts c = c))"
  by (auto simp: handleChatMessage_def chat_message_def io_to_def)

text \<open>
  Bob's connection \<open>B2\<close> sends \<open>hi\<close> under the name Alice; Alice's client, handed the
  broadcast, keeps its chat log as it was, the two welcome messages.
\<close>

theorem own_name_chat_discarded_witness:
  "or_default (Some (js ''Alice'')) (js ''Participant'') = activeUserName alice_waiting
   \<and> chat_message two_party_room (js ''B2'') 1000 (Some (js ''r1'')) (Some (js ''Alice''))
        (Some (js ''hi''))
       = [(js ''A1'', ChatMessage (js ''Alice'') (js ''hi'') 1000),
          (js ''B2'', ChatMessage (js ''Alice'') (js ''hi'') 1000)]
   \<and> handleChatMessage good_platform (js ''Alice'') (js ''hi'') 1000 alice_waiting
       = alice_waiting
   \<and> chatMessages (handleChatMessage good_platform (js ''Alice'') (js ''hi'') 1000
                      alice_waiting)
       = welcome_messages 1699999999000 1699999999000 None"
proof -
  have h: "or_default (Some (js ''Alice'')) (js ''Participant'') = activeUserName alice_waiting"
    by (simp add: or_default_def alice_waiting_simps js_Nil)
  have ne: "js ''r1'' \<noteq> []" "js ''hi'' \<noteq> []" by (simp_all add: js_Nil)
  have cm: "chat_message two_party_room (js ''B2'') 1000 (Some (js ''r1'')) (Some (js ''Alice''))
        (Some (js ''hi''))
       = [(js ''A1'', ChatMessage (js ''Alice'') (js ''hi'') 1000),
          (js ''B2'', ChatMessage (js ''Alice'') (js ''hi'') 1000)]"
    using ne h by (simp add: chat_message_def truthy_def io_to_def two_party_room_r1
        alice_waiting_simps trim_literals)
  note inst = own_name_chat_discarded [where pf = good_platform and c = alice_waiting
      and sender = "Some (js ''Alice'')" and srv = two_party_room and s = "js ''B2''"
      and now = 1000 and roomId = "Some (js ''r1'')" and msg = "Some (js ''hi'')"]
  from inst h cm
  have "\<exists>tx ts. ChatMessage (js ''Alice'') (js ''hi'') 1000
                   = ChatMessage (activeUserName alice_waiting) tx ts
          \<and> handleChatMessage good_platform (activeUserName alice_waiting) tx ts
                alice_waiting = alice_waiting"
    by simp
  then have "handleChatMessage good_platform (js ''Alice'') (js ''hi'') 1000 alice_waiting
          = alice_waiting"
    by (auto simp: alice_waiting_simps)
  with h cm show ?thesis by (simp add: alice_waiting_simps)
qed

section \<open>Presence\<close>

text \<open>
  Claim C5, as stated, fails: the handler broadcasts once for every room of the
  socket. \<open>A1\<close> and \<open>B2\<close> are both members of \<open>r1\<close> and of \<open>r2\<close>; when \<open>A1\<close> disconnects,
  \<open>B2\<close> is handed \<open>user-left\<close> twice.
\<close>

theorem disconnecting_two_shared_rooms_counterexample:
  "rooms two_shared_rooms (js ''r1'') = [js ''A1'', js ''B2'']
   \<and> rooms two_shared_rooms (js ''r2'') = [js ''A1'', js ''B2'']
   \<and> sids two_shared_rooms (js ''A1'') = [js ''A1'', js ''r1'', js ''r2'']
   \<and> disconnecting two_shared_rooms (js ''A1'')
       = [(js ''B2'', UserLeft (js ''A1'')), (js ''B2'', UserLeft (js ''A1''))]
   \<and> count_list (disconnecting two_shared_rooms (js ''A1''))
        (js ''B2'', UserLeft (js ''A1'')) = 2"
  by (simp add: disconnecting_def socket_to_def two_shared_rooms_simps js_inject)

text \<open>
  Claim C5, amended. When a socket \<open>s\<close> disconnects, every other connection \<open>x\<close> is
  handed one \<open>user-left\<close> carrying the id of \<open>s\<close> for each room, other than the room named
  by the id of \<open>s\<close>, that \<open>s\<close> and \<open>x\<close> are both members of; so exactly one when \<open>R\<close> is the
  only such room of \<open>s\<close> and \<open>x\<close> is a member of \<open>R\<close>, and none when \<open>x\<close> shares no room with
  \<open>s\<close>. Every delivery of the disconnect is such a \<open>user-left\<close>, and none goes to \<open>s\<close>.
\<close>

theorem disconnecting_user_left_per_room:
  assumes "\<forall>r. distinct (rooms srv r)" and "x \<noteq> s"
  shows "count_list (disconnecting srv s) (x, UserLeft s)
           = length (filter (\<lambda>r. r \<noteq> s \<and> x \<in> set (rooms srv r)) (sids srv s))
         \<and> (\<forall>d \<in> set (disconnecting srv s). snd d = UserLeft s \<and> fst d \<noteq> s)
         \<and> (filter (\<lambda>r. r \<noteq> s) (sids srv s) = [R] \<longrightarrow>
              count_list (disconnecting srv s) (x, UserLeft s)
                = (if x \<in> set (rooms srv R) then 1 else 0))"
proof -
  have one: "count_list (if r \<noteq> s then socket_to srv s r (UserLeft s) else [])
               (x, UserLeft s)
               = (if r \<noteq> s \<and> x \<in> set (rooms srv r) then 1 else 0)" for r
    using assms by (simp add: count_socket_to)
  have cnt: "count_list (disconnecting srv s) (x, UserLeft s)
           = length (filter (\<lambda>r. r \<noteq> s \<and> x \<in> set (rooms srv r)) (sids srv s))"
    unfolding disconnecting_def count_concat_map one sum_list_indicator ..
  have all: "\<forall>d \<in> set (disconnecting srv s). snd d = UserLeft s \<and> fst d \<noteq> s"
    by (auto simp: disconnecting_def socket_to_def split: if_splits)
  have single: "count_list (disconnecting srv s) (x, UserLeft s)
                = (if x \<in> set (rooms srv R) then 1 else 0)"
    if "filter (\<lambda>r. r \<noteq> s) (sids srv s) = [R]"
  proof -
    have "filter (\<lambda>r. r \<noteq> s \<and> x \<in> set (rooms srv r)) (sids srv s)
            = filter (\<lambda>r. x \<in> set (rooms srv r)) (filter (\<lambda>r. r \<noteq> s) (sids srv s))"
      by (simp add: conj_commute)
    with that cnt show ?thesis by simp
  qed
  from cnt all single show ?thesis by blast
qed

text \<open>In the room of Alice and Bob, \<open>A1\<close> disconnects and \<open>B2\<close> is told once.\<close>

theorem disconnecting_user_left_per_room_witness:
  "(\<forall>r. distinct (rooms two_party_room r)) \<and> js ''B2'' \<noteq> js ''A1''
   \<and> filter (\<lambda>r. r \<noteq> js ''A1'') (sids two_party_room (js ''A1'')) = [js ''r1'']
   \<and> disconnecting two_party_room (js ''A1'') = [(js ''B2'', UserLeft (js ''A1''))]
   \<and> count_list (disconnecting two_party_room (js ''A1''))
        (js ''B2'', UserLeft (js ''A1'')) = 1"
proof -
  have h1: "\<forall>r. distinct (rooms two_party_room r)"
    by (simp add: two_party_room_simps js_inject)
  have h2: "js ''B2'' \<noteq> js ''A1''" by (simp add: js_inject)
  have h3: "filter (\<lambda>r. r \<noteq> js ''A1'') (sids two_party_room (js ''A1'')) = [js ''r1'']"
    by (simp add: two_party_room_simps js_inject)
  have d: "disconnecting two_party_room (js ''A1'') = [(js ''B2'', UserLeft (js ''A1''))]"
    by (simp add: disconnecting_def socket_to_def two_party_room_simps js_inject)
  from disconnecting_user_left_per_room [OF h1 h2, of "js ''r1''"] h3
  have "count_list (disconnecting two_party_room (js ''A1''))
          (js ''B2'', UserLeft (js ''A1'')) = 1"
    by (simp add: two_party_room_r1)
  with h1 h2 h3 d show ?thesis by blast
qed

section \<open>Negotiation\<close>

lemma peerRef_syncTracksWithPeer:
  "peerRef (syncTracksWithPeer st c) = None \<longleftrightarrow> peerRef c = None"
  by (simp add: syncTracksWithPeer_def split: option.splits)

lemma peerRef_startMedia:
  "peerRef (startMedia pf v a c) = None \<longleftrightarrow> peerRef c = None"
  by (simp add: startMedia_def media_failed_def Let_def peerRef_syncTracksWithPeer
      split: sum.splits option.splits)

lemma peerRef_ensureLocalStream:
  "peerRef (ensureLocalStream pf c) = None \<longleftrightarrow> peerRef c = None"
  by (simp add: ensureLocalStream_def peerRef_startMedia split: option.splits)

lemma createPeerConnection_ok:
  assumes "peerRef c \<noteq> None \<or> newPeerOk pf"
  shows "\<exists>c'. createPeerConnection pf c = Some c' \<and> peerRef c' \<noteq> None"
  using assms by (auto simp: createPeerConnection_def split: option.splits)

text \<open>With a peer connection at hand and the browser calls succeeding, an offer goes out.\<close>

lemma initiateOffer_emits:
  assumes "peerRef c \<noteq> None \<or> newPeerOk pf"
    and "createOfferResult pf = Some off" and "setLocalDescriptionOk pf"
  shows "snd (initiateOffer pf t c) = [EmitOffer t off]"
proof -
  from assms(1) have "peerRef (ensureLocalStream pf c) \<noteq> None \<or> newPeerOk pf"
    by (simp add: peerRef_ensureLocalStream)
  then obtain c' where "createPeerConnection pf (ensureLocalStream pf c) = Some c'"
    using createPeerConnection_ok by blast
  with assms(2,3) show ?thesis
    by (simp add: initiateOffer_def Let_def)
qed

text \<open>
  Claim C1, as stated, fails: when Bob's connection \<open>B2\<close> joins the room that holds
  Alice's connection \<open>A1\<close>, the server tells \<open>B2\<close> of the existing participant and \<open>A1\<close> of
  the joiner, and both clients create and send an offer, \<open>B2\<close> to \<open>A1\<close> and \<open>A1\<close> to \<open>B2\<close>.
\<close>

theorem both_sides_offer_counterexample:
  "snd (join_room one_party_room (js ''B2'') (Some (js ''r1'')) (Some (js ''Bob'')))
     = [(js ''B2'', ExistingParticipants [js ''A1'']),
        (js ''A1'', UserJoined (js ''B2'') (Some (js ''Bob'')))]
   \<and> snd (handleExistingParticipants good_platform (Some [js ''A1'']) bob_joining)
       = [EmitOffer (js ''A1'') 1]
   \<and> snd (handleUserJoined (good_platform\<lparr>createOfferResult := Some 3\<rparr>) (js ''B2'')
             (Some (js ''Bob'')) alice_waiting)
       = [EmitOffer (js ''B2'') 3]"
proof -
  have j: "snd (join_room one_party_room (js ''B2'') (Some (js ''r1'')) (Some (js ''Bob'')))
     = [(js ''B2'', ExistingParticipants [js ''A1'']),
        (js ''A1'', UserJoined (js ''B2'') (Some (js ''Bob'')))]"
    by (simp add: join_room_def socket_join_def socket_to_def set_add_def Let_def
        one_party_room_r1 js_inject js_Nil)
  have e: "snd (handleExistingParticipants good_platform (Some [js ''A1'']) bob_joining)
       = [EmitOffer (js ''A1'') 1]"
    by (rule bob_offering_simps)
  have u: "snd (handleUserJoined (good_platform\<lparr>createOfferResult := Some 3\<rparr>) (js ''B2'')
             (Some (js ''Bob'')) alice_waiting)
       = [EmitOffer (js ''B2'') 3]"
    by (simp add: handleUserJoined_def truthy_def alice_waiting_simps initiateOffer_def
        ensureLocalStream_def createPeerConnection_def syncTracksWithPeer_def
        good_platform_def Let_def)
  from j e u show ?thesis by blast
qed

text \<open>
  Claim C1, amended. When a second participant \<open>b\<close> joins a room whose only member is
  \<open>a\<close>, the server hands \<open>existing-participants [a]\<close> to \<open>b\<close> and \<open>user-joined b\<close> to \<open>a\<close>, and
  both clients take the offering role: the joiner creates and sends an offer to \<open>a\<close>,
  and the existing member, which tracks no remote peer or tracks \<open>b\<close>, creates and sends
  an offer to \<open>b\<close>, provided each has or can create a peer connection and its browser
  creates and sets the offer.
\<close>

theorem second_join_both_sides_offer:
  assumes "rooms srv r = [a]" and "a \<noteq> b" and "a \<noteq> []" and "r \<noteq> []"
    and "remoteSocketId ca = None \<or> remoteSocketId ca = Some b"
    and "peerRef ca \<noteq> None \<or> newPeerOk pfa"
    and "createOfferResult pfa = Some oa" and "setLocalDescriptionOk pfa"
    and "peerRef cb \<noteq> None \<or> newPeerOk pfb"
    and "createOfferResult pfb = Some ob" and "setLocalDescriptionOk pfb"
  shows "snd (join_room srv b (Some r) name)
           = [(b, ExistingParticipants [a]), (a, UserJoined b name)]
         \<and> snd (handleExistingParticipants pfb (Some [a]) cb) = [EmitOffer a ob]
         \<and> snd (handleUserJoined pfa b name ca) = [EmitOffer b oa]"
proof -
  have j: "snd (join_room srv b (Some r) name)
           = [(b, ExistingParticipants [a]), (a, UserJoined b name)]"
    using assms(1,2,4)
    by (simp add: join_room_def socket_join_def socket_to_def set_add_def Let_def)
  have e: "snd (handleExistingParticipants pfb (Some [a]) cb) = [EmitOffer a ob]"
    using assms(3) initiateOffer_emits [of _ pfb ob a] assms(9,10,11)
    by (simp add: handleExistingParticipants_def)
  have u: "snd (handleUserJoined pfa b name ca) = [EmitOffer b oa]"
    using assms(5) initiateOffer_emits [of _ pfa oa b] assms(6,7,8)
    by (auto simp: handleUserJoined_def truthy_def)
  from j e u show ?thesis by blast
qed

theorem second_join_both_sides_offer_witness:
  "rooms one_party_room (js ''r1'') = [js ''A1''] \<and> js ''A1'' \<noteq> js ''B2''
   \<and> js ''A1'' \<noteq> [] \<and> js ''r1'' \<noteq> []
   \<and> remoteSocketId alice_waiting = None
   \<and> newPeerOk good_platform \<and> createOfferResult good_platform = Some 1
   \<and> setLocalDescriptionOk good_platform
   \<and> snd (join_room one_party_room (js ''B2'') (Some (js ''r1'')) (Some (js ''Bob'')))
       = [(js ''B2'', ExistingParticipants [js ''A1'']),
          (js ''A1'', UserJoined (js ''B2'') (Some (js ''Bob'')))]
   \<and> snd (handleExistingParticipants good_platform (Some [js ''A1'']) bob_joining)
       = [EmitOffer (js ''A1'') 1]
   \<and> snd (handleUserJoined good_platform (js ''B2'') (Some (js ''Bob'')) alice_waiting)
       = [EmitOffer (js ''B2'') 1]"
proof -
  have h1: "rooms one_party_room (js ''r1'') = [js ''A1'']" by (rule one_party_room_r1)
  have h2: "js ''A1'' \<noteq> js ''B2''" by (simp add: js_inject)
  have h3: "js ''A1'' \<noteq> []" by (simp add: js_Nil)
  have h4: "js ''r1'' \<noteq> []" by (simp add: js_Nil)
  have h5: "remoteSocketId alice_waiting = None
            \<or> remoteSocketId alice_waiting = Some (js ''B2'')"
    by (simp add: alice_waiting_simps)
  have h6: "peerRef c \<noteq> None \<or> newPeerOk good_platform" for c
    by (simp add: good_platform_def)
  have h7: "createOfferResult good_platform = Some 1" by (simp add: good_platform_def)
  have h8: "setLocalDescriptionOk good_platform" by (simp add: good_platform_def)
  from second_join_both_sides_offer [OF h1 h2 h3 h4 h5 h6 h7 h8 h6 h7 h8]
    h1 h2 h3 h4 h7 h8
  show ?thesis by (simp add: alice_waiting_simps good_platform_def)
qed

text \<open>
  Claim C8. While the client tracks a remote peer, a \<open>user-joined\<close> event with another
  socket id changes nothing and emits nothing: the tracked handle, the peer connection
  and all other state stay as they are. (A socket id is never the empty string.)
\<close>

theorem user_joined_ignored_while_tracking_other:
  assumes "remoteSocketId c = Some r" and "r \<noteq> []" and "socketId \<noteq> r"
  shows "handleUserJoined pf socketId userName c = (c, [])"
  using assms by (auto simp: handleUserJoined_def truthy_def)

text \<open>Bob's client tracks \<open>A1\<close>; a third connection \<open>C3\<close> joins as Carol.\<close>

theorem user_joined_ignored_while_tracking_other_witness:
  "remoteSocketId bob_offering = Some (js ''A1'') \<and> js ''A1'' \<noteq> []
   \<and> js ''C3'' \<noteq> js ''A1''
   \<and> handleUserJoined good_platform (js ''C3'') (Some (js ''Carol'')) bob_offering
       = (bob_offering, [])"
proof -
  have h1: "remoteSocketId bob_offering = Some (js ''A1'')" by (rule bob_offering_simps)
  have h2: "js ''A1'' \<noteq> []" by (simp add: js_Nil)
  have h3: "js ''C3'' \<noteq> js ''A1''" by (simp add: js_inject)
  from user_joined_ignored_while_tracking_other [OF h1 h2 h3] h1 h2 h3
  show ?thesis by blast
qed

text \<open>
  Claim C3, as stated, fails: the client has no buffer for candidates. Alice's client
  receives candidate 7 while it has no peer connection and then answers the offer;
  Bob's client receives candidate 7 after its own offer and before the answer. In both
  the remote description is set afterwards and the connection has accepted no
  candidate.
\<close>

theorem early_ice_candidate_lost_counterexample:
  "peerRef alice_waiting = None
   \<and> alice_early_candidate
       = on_ice_candidate good_platform (Some (js ''B2'')) 7 alice_waiting
   \<and> alice_answering
       = fst (handleRemoteOffer good_platform 1 (js ''B2'') alice_early_candidate)
   \<and> map_option remoteDescription (peerRef alice_answering) = Some (Some 1)
   \<and> map_option iceCandidates (peerRef alice_answering) = Some []
   \<and> map_option remoteDescription (peerRef bob_offering) = Some None
   \<and> bob_early_candidate
       = on_ice_candidate good_platform (Some (js ''A1'')) 7 bob_offering
   \<and> bob_answered = on_answer good_platform (Some (js ''A1'')) 2 bob_early_candidate
   \<and> map_option remoteDescription (peerRef bob_answered) = Some (Some 2)
   \<and> map_option iceCandidates (peerRef bob_answered) = Some []"
proof -
  have trace: "alice_early_candidate
       = on_ice_candidate good_platform (Some (js ''B2'')) 7 alice_waiting"
    "alice_answering
       = fst (handleRemoteOffer good_platform 1 (js ''B2'') alice_early_candidate)"
    "bob_early_candidate
       = on_ice_candidate good_platform (Some (js ''A1'')) 7 bob_offering"
    "bob_answered = on_answer good_platform (Some (js ''A1'')) 2 bob_early_candidate"
    by (simp_all only: alice_early_candidate_def alice_answering_def
        bob_early_candidate_def bob_answered_def)
  have "peerRef alice_waiting = None
   \<and> map_option remoteDescription (peerRef alice_answering) = Some (Some 1)
   \<and> map_option iceCandidates (peerRef alice_answering) = Some []
   \<and> map_option remoteDescription (peerRef bob_offering) = Some None
   \<and> map_option remoteDescription (peerRef bob_answered) = Some (Some 2)
   \<and> map_option iceCandidates (peerRef bob_answered) = Some []"
    by (simp add: bob_offering_simps bob_answered_simps alice_answering_simps
        alice_waiting_simps)
  with trace show ?thesis by blast
qed

lemma handleRemoteOffer_fresh_peer:
  assumes "peerRef c = None" and "newPeerOk pf"
  shows "map_option iceCandidates (peerRef (fst (handleRemoteOffer pf sdp fromId c))) = Some []"
proof -
  from assms(1) have "peerRef (ensureLocalStream pf c) = None"
    by (simp add: peerRef_ensureLocalStream)
  with assms(2) show ?thesis
    by (simp add: handleRemoteOffer_def createPeerConnection_def syncTracksWithPeer_def
        new_peer_def Let_def split: option.splits)
qed

text \<open>
  Claim C3, amended. An \<open>ice-candidate\<close> event is never buffered. Received while the
  client has no peer connection, or while its peer connection has no remote
  description, the candidate is dropped: all the listener changes is the tracked
  remote handle, which it sets to the sender of the event when that is given. The
  candidate is not applied later either: when an answer then sets the remote
  description, the connection is the old one with that description and the same
  accepted candidates, and when there was no connection and an offer then creates one,
  that connection has accepted no candidate. Received once a remote description is set,
  the candidate is handed to the connection at once and, the browser accepting it,
  added to its candidates.
\<close>

theorem ice_candidate_not_buffered:
  "(peerRef c = None \<or> (peerRef c = Some p \<and> remoteDescription p = None) \<longrightarrow>
      on_ice_candidate pf fromId cand c
        = (if truthy fromId then c\<lparr>remoteSocketId := fromId\<rparr> else c))
   \<and> (peerRef c = Some p \<and> remoteDescription p = None \<and> setRemoteDescriptionOk pf' \<longrightarrow>
        peerRef (on_answer pf' fromId' sdp (on_ice_candidate pf fromId cand c))
          = Some (p\<lparr>remoteDescription := Some sdp\<rparr>))
   \<and> (peerRef c = None \<and> newPeerOk pf' \<longrightarrow>
        map_option iceCandidates
          (peerRef (fst (handleRemoteOffer pf' sdp offerer (on_ice_candidate pf fromId cand c))))
          = Some [])
   \<and> (peerRef c = Some p \<and> remoteDescription p \<noteq> None \<and> addIceCandidateOk pf \<longrightarrow>
        on_ice_candidate pf fromId cand c
          = (if truthy fromId then c\<lparr>remoteSocketId := fromId\<rparr> else c)
              \<lparr>peerRef := Some (p\<lparr>iceCandidates := iceCandidates p @ [cand]\<rparr>)\<rparr>)"
proof -
  have dropped: "on_ice_candidate pf fromId cand c
        = (if truthy fromId then c\<lparr>remoteSocketId := fromId\<rparr> else c)"
    if "peerRef c = None \<or> (peerRef c = Some p \<and> remoteDescription p = None)"
    using that
    by (auto simp: on_ice_candidate_def handleRemoteCandidate_def addIceCandidate_def)
  have answered: "peerRef (on_answer pf' fromId' sdp (on_ice_candidate pf fromId cand c))
          = Some (p\<lparr>remoteDescription := Some sdp\<rparr>)"
    if "peerRef c = Some p" and "remoteDescription p = None" and "setRemoteDescriptionOk pf'"
    using that dropped by (simp add: on_answer_def handleRemoteAnswer_def)
  have offered: "map_option iceCandidates
          (peerRef (fst (handleRemoteOffer pf' sdp offerer (on_ice_candidate pf fromId cand c))))
          = Some []"
    if "peerRef c = None" and "newPeerOk pf'"
  proof -
    from that(1) dropped have "peerRef (on_ice_candidate pf fromId cand c) = None"
      by simp
    from handleRemoteOffer_fresh_peer [OF this that(2)] show ?thesis .
  qed
  have applied: "on_ice_candidate pf fromId cand c
          = (if truthy fromId then c\<lparr>remoteSocketId := fromId\<rparr> else c)
              \<lparr>peerRef := Some (p\<lparr>iceCandidates := iceCandidates p @ [cand]\<rparr>)\<rparr>"
    if "peerRef c = Some p" and "remoteDescription p \<noteq> None" and "addIceCandidateOk pf"
    using that
    by (auto simp: on_ice_candidate_def handleRemoteCandidate_def addIceCandidate_def)
  from dropped answered offered applied show ?thesis by blast
qed

text \<open>
  Alice's client, without a peer connection, and Bob's client, whose connection has
  only its own offer, are handed candidate 7: each only retargets its remote handle;
  the answer, or the offer, that follows leaves the connection without candidates.
  Bob's client after the answer adds the candidate.
\<close>

theorem ice_candidate_not_buffered_witness:
  "peerRef alice_waiting = None
   \<and> on_ice_candidate good_platform (Some (js ''B2'')) 7 alice_waiting
       = alice_waiting\<lparr>remoteSocketId := Some (js ''B2'')\<rparr>
   \<and> map_option iceCandidates
       (peerRef (fst (handleRemoteOffer good_platform 1 (js ''B2'')
                        (on_ice_candidate good_platform (Some (js ''B2'')) 7 alice_waiting))))
       = Some []
   \<and> peerRef bob_offering = Some \<lparr>senders = [], localDescription = Some 1,
                                   remoteDescription = None, iceCandidates = []\<rparr>
   \<and> on_ice_candidate good_platform (Some (js ''A1'')) 7 bob_offering
       = bob_offering\<lparr>remoteSocketId := Some (js ''A1'')\<rparr>
   \<and> peerRef (on_answer good_platform (Some (js ''A1'')) 2
                 (on_ice_candidate good_platform (Some (js ''A1'')) 7 bob_offering))
       = Some \<lparr>senders = [], localDescription = Some 1,
               remoteDescription = Some 2, iceCandidates = []\<rparr>
   \<and> peerRef bob_answered = Some \<lparr>senders = [], localDescription = Some 1,
                                   remoteDescription = Some 2, iceCandidates = []\<rparr>
   \<and> peerRef (on_ice_candidate good_platform (Some (js ''A1'')) 7 bob_answered)
       = Some \<lparr>senders = [], localDescription = Some 1,
               remoteDescription = Some 2, iceCandidates = [7]\<rparr>"
proof -
  have ok: "setRemoteDescriptionOk good_platform" "addIceCandidateOk good_platform"
    "newPeerOk good_platform"
    by (simp_all add: good_platform_def)
  have tr: "truthy (Some (js ''B2''))" "truthy (Some (js ''A1''))"
    by (simp_all add: truthy_def js_Nil)
  have pa: "peerRef alice_waiting = None" by (rule alice_waiting_simps)
  have pb: "peerRef bob_offering = Some \<lparr>senders = [], localDescription = Some 1,
                                   remoteDescription = None, iceCandidates = []\<rparr>"
    by (rule bob_offering_simps)
  have pc: "peerRef bob_answered = Some \<lparr>senders = [], localDescription = Some 1,
                                   remoteDescription = Some 2, iceCandidates = []\<rparr>"
    by (rule bob_answered_simps)
  note ia = ice_candidate_not_buffered [where c = alice_waiting and pf = good_platform
      and pf' = good_platform and fromId = "Some (js ''B2'')" and cand = 7 and sdp = 1
      and offerer = "js ''B2''"]
  from ia pa ok tr
  have a: "on_ice_candidate good_platform (Some (js ''B2'')) 7 alice_waiting
       = alice_waiting\<lparr>remoteSocketId := Some (js ''B2'')\<rparr>"
    "map_option iceCandidates
       (peerRef (fst (handleRemoteOffer good_platform 1 (js ''B2'')
                        (on_ice_candidate good_platform (Some (js ''B2'')) 7 alice_waiting))))
       = Some []"
    by auto
  note ib = ice_candidate_not_buffered [where c = bob_offering and pf = good_platform
      and pf' = good_platform and fromId = "Some (js ''A1'')" and cand = 7 and sdp = 2
      and fromId' = "Some (js ''A1'')"
      and p = "\<lparr>senders = [], localDescription = Some 1, remoteDescription = None,
                 iceCandidates = []\<rparr>"]
  from ib pb ok tr
  have b: "on_ice_candidate good_platform (Some (js ''A1'')) 7 bob_offering
       = bob_offering\<lparr>remoteSocketId := Some (js ''A1'')\<rparr>"
    "peerRef (on_answer good_platform (Some (js ''A1'')) 2
                 (on_ice_candidate good_platform (Some (js ''A1'')) 7 bob_offering))
       = Some \<lparr>senders = [], localDescription = Some 1,
               remoteDescription = Some 2, iceCandidates = []\<rparr>"
    by auto
  note ic = ice_candidate_not_buffered [where c = bob_answered and pf = good_platform
      and fromId = "Some (js ''A1'')" and cand = 7
      and p = "\<lparr>senders = [], localDescription = Some 1, remoteDescription = Some 2,
                 iceCandidates = []\<rparr>"]
  from ic pc ok tr
  have c: "peerRef (on_ice_candidate good_platform (Some (js ''A1'')) 7 bob_answered)
       = Some \<lparr>senders = [], localDescription = Some 1,
               remoteDescription = Some 2, iceCandidates = [7]\<rparr>"
    by simp
  from pa a pb b pc c show ?thesis by blast
qed

section \<open>Recording\<close>

text \<open>
  Claim C6. Starting a recording while there is no remote stream fails as
  unavailable: no recorder is created, the chunks and the tracks are untouched,
  \<open>isRecording\<close> keeps its value (so stays false), and when no recording is running the
  only change is the status text that reports the failure.
\<close>

theorem start_recording_without_remote_stream:
  assumes "remoteStream c = None"
  shows "mediaRecorder (startRecording pf c) = mediaRecorder c
         \<and> recordingChunks (startRecording pf c) = recordingChunks c
         \<and> isRecording (startRecording pf c) = isRecording c
         \<and> tracks (startRecording pf c) = tracks c
         \<and> (\<not> isRecording c \<longrightarrow>
              startRecording pf c
                = c\<lparr>systemStatus := js ''Recording unavailable until the session is live.''\<rparr>)"
  using assms by (simp add: startRecording_def buildRecordingStream_def)

theorem start_recording_without_remote_stream_witness:
  "remoteStream alice_waiting = None \<and> \<not> isRecording alice_waiting
   \<and> mediaRecorder (startRecording good_platform alice_waiting) = None
   \<and> recordingChunks (startRecording good_platform alice_waiting) = []
   \<and> \<not> isRecording (startRecording good_platform alice_waiting)
   \<and> systemStatus (startRecording good_platform alice_waiting)
       = js ''Recording unavailable until the session is live.''"
proof -
  have h: "remoteStream alice_waiting = None" by (rule alice_waiting_simps)
  from start_recording_without_remote_stream [OF h, of good_platform] h
  show ?thesis by (simp add: alice_waiting_simps)
qed

text \<open>
  The recording stream holds the remote stream's own tracks, not clones of them, and
  stopping a stream ends each of its tracks.
\<close>

lemma buildRecordingStream_shares_remote:
  assumes "remoteStream c = Some remote"
  shows "\<exists>st c'. buildRecordingStream c = (Some st, c') \<and> set remote \<subseteq> set st"
  using assms by (auto simp: buildRecordingStream_def Let_def split: option.splits)

lemma stop_track_length: "length (stop_track i ts) = length ts"
  by (simp add: stop_track_def)

lemma stop_track_ended:
  "j < length ts \<Longrightarrow> ended (stop_track i ts ! j) \<longleftrightarrow> i = j \<or> ended (ts ! j)"
  by (auto simp: stop_track_def nth_list_update)

lemma stop_tracks_ended:
  "j < length ts \<Longrightarrow> ended (stop_tracks st ts ! j) \<longleftrightarrow> j \<in> set st \<or> ended (ts ! j)"
  unfolding stop_tracks_def
proof (induction st arbitrary: ts)
  case Nil
  then show ?case by simp
next
  case (Cons i st)
  from Cons.prems have "j < length (stop_track i ts)" by (simp add: stop_track_length)
  from Cons.IH [OF this] Cons.prems show ?case
    by (auto simp: stop_track_ended)
qed

lemma stopRecording_ends_recorded_tracks:
  assumes "mediaRecorder c = Some r" and "j \<in> set (recorderStream r)"
    and "j < length (tracks c)"
  shows "ended (tracks (fst (stopRecording pf c)) ! j)"
  using assms by (simp add: stopRecording_def stopRecordingTimer_def stop_tracks_ended)

text \<open>
  Claim C4. Bob's client is in a live call (local tracks 0 and 1, remote tracks 2 and
  3, all live) and records: the recorder's stream is the remote tracks 2 and 3 and the
  clone 4 of the local audio track. \<open>stopRecording\<close> hands the recorder on to its \<open>stop\<close>
  event, whose handler assembles the artifact (file name from the timestamp, duration,
  MIME type, data URL of the blob) and gives it to the callback; the local tracks stay
  live, but the remote tracks 2 and 3 of the call are ended together with the clone.
\<close>

theorem stop_recording_ends_remote_tracks:
  "remoteStream bob_recording = Some [2, 3]
   \<and> localStream bob_recording = Some [0, 1]
   \<and> map ended (tracks bob_recording) = [False, False, False, False, False]
   \<and> map_option recorderStream (mediaRecorder bob_recording) = Some [2, 3, 4]
   \<and> snd (stopRecording good_platform bob_recording)
       = Some \<lparr>recorderStream = [2, 3, 4], mimeType = js ''video/webm;codecs=vp9,opus''\<rparr>
   \<and> snd (recorder_onstop good_platform
            \<lparr>recorderStream = [2, 3, 4], mimeType = js ''video/webm;codecs=vp9,opus''\<rparr>
            (fst (stopRecording good_platform bob_recording)))
       = [\<lparr>recId = js ''1700000000000'',
           recFilename = js ''session-2023-11-14T22-13-20-000Z.webm'',
           recDuration = 1, recCreatedAt = js ''2023-11-14T22:13:20.000Z'',
           recMimeType = js ''video/webm;codecs=vp9,opus'',
           recDataUrl = js ''data:video/webm;base64,AQID''\<rparr>]
   \<and> remoteStream (fst (stopRecording good_platform bob_recording)) = Some [2, 3]
   \<and> map ended (tracks (fst (stopRecording good_platform bob_recording)))
       = [False, False, True, True, True]"
  using bob_artifact by (simp add: bob_recording_simps bob_stopped_simps)

end
